theory Spec2Isabelle
  imports Main
begin

section \<open>Data model (prover/datatypes.py)\<close>

text \<open>
  A Python \<open>str\<close> is a sequence of code points. The driver compares characters with the
  box-drawing separator U+2500 and the sign U+2254, which are no 8-bit characters, so a
  string is a list of code points here; \<open>ascii\<close> reads an ASCII literal.
\<close>

type_synonym str = "nat list"

definition ascii :: "string \<Rightarrow> str" where
  "ascii s = map of_char s"

type_synonym Name = str

datatype Term = Lit Name | Var Name | Symtree "Term list" | Hole

datatype Argument = Sorry str | Lemma Name

record Proof =
  edge :: Name
  arguments :: "Argument list"
  substitutions :: "Name \<rightharpoonup> Term"

record InferenceRule =
  premises' :: "Term list"
  conclusion :: Term

text \<open>
  The fields keep the names of the source; \<open>premises\<close>, \<open>infix\<close> and \<open>context\<close>, which are
  keywords of the prover, carry a prime.
\<close>

record State =
  variables :: "Name list"
  infix' :: "Name \<rightharpoonup> int"
  context' :: "Name \<rightharpoonup> InferenceRule"
  bound :: "Term list"
  defs :: "(Term \<times> Term) list"

text \<open>\<open>State()\<close>: every field at its default.\<close>

definition State0 :: State where
  "State0 = \<lparr>variables = [], infix' = Map.empty, context' = Map.empty, bound = [], defs = []\<rparr>"

section \<open>The reader's output and the errors of the driver\<close>

text \<open>
  The S-expression reader is an external library. Its output is the abstract syntax the
  driver consumes: symbols, integers, lists and bracketed lists, which are the four
  shapes \<open>principia.py\<close> tells apart (\<open>isinstance\<close> of \<open>Symbol\<close>, \<open>int\<close>, \<open>Bracket\<close>, and
  unpacking of a list).
\<close>

datatype sexp = Symbol str | Integer int | List "sexp list" | Bracket "sexp list"

datatype verror =
    UnknownRule Name
  | ArityMismatch Name nat nat
  | PremiseMismatch Name Term Term
  | ConclusionMismatch Term Term

text \<open>
  The exceptions a run can raise. \<open>SyntaxError\<close> and \<open>AssertionError\<close> carry their message;
  \<open>IndexError\<close> is \<open>pop\<close> on an empty list, \<open>ValueError\<close> an unpacking of the wrong length,
  \<open>TypeError\<close> an unpacking of something that is no list, \<open>RecursionError\<close> the
  interpreter's bound on nested calls.
\<close>

datatype error =
    SyntaxError str
  | AssertionError str
  | VerificationError verror
  | IndexError
  | ValueError
  | TypeError
  | RecursionError

text \<open>
  The modules \<open>prover.parser\<close>, \<open>prover.checker\<close>, \<open>prover.prelude\<close> and \<open>prover.errors\<close>
  are imported by \<open>principia.py\<close> and are not part of the sources at hand. The two parser
  functions \<open>symbol\<close> and \<open>term\<close> are taken as parameters, together with the interpreter's
  recursion limit: every statement below holds for each choice of them. Both parser
  functions return a value or raise, and read the state without changing it.
\<close>

record env =
  symbol :: "sexp \<Rightarrow> error + Name"
  term' :: "State \<Rightarrow> sexp \<Rightarrow> error + Term"
  limit :: nat

text \<open>
  \<open>maplist(f, xs)\<close> of \<open>prover.prelude\<close>, by its name and its uses the list of the results
  of \<open>f\<close> in order; the first call that raises ends it.
\<close>

fun maplist :: "('a \<Rightarrow> error + 'b) \<Rightarrow> 'a list \<Rightarrow> error + 'b list" where
  "maplist f [] = Inr []"
| "maplist f (x # xs) =
     (case f x of
        Inl e \<Rightarrow> Inl e
      | Inr y \<Rightarrow> (case maplist f xs of Inl e \<Rightarrow> Inl e | Inr ys \<Rightarrow> Inr (y # ys)))"

section \<open>Matching and substitution (prover.checker)\<close>

type_synonym subst = "Name \<rightharpoonup> Term"

text \<open>
  Modelled from the spec: \<open>match\<close> of \<open>prover/checker.py\<close> is missing from the sources.
  Section 4.B: a \<open>Hole\<close> succeeds without binding; a \<open>Var\<close> that is bound requires
  structural equality with its binding and is bound to the subject otherwise; a \<open>Lit\<close>
  succeeds on the same literal only; a \<open>Symtree\<close> succeeds on a \<open>Symtree\<close> of the same
  length whose children match pairwise under the accumulating substitution. The
  substitution is threaded explicitly and \<open>None\<close> is failure, as section 9 of the spec
  allows: every caller in \<open>principia.py\<close> drops the substitution of a failed match.
\<close>

fun match :: "subst \<Rightarrow> Term \<Rightarrow> Term \<Rightarrow> subst option"
  and match_children :: "subst \<Rightarrow> Term list \<Rightarrow> Term list \<Rightarrow> subst option" where
  "match \<sigma> Hole t = Some \<sigma>"
| "match \<sigma> (Var n) t =
     (case \<sigma> n of
        Some u \<Rightarrow> if u = t then Some \<sigma> else None
      | None \<Rightarrow> Some (\<sigma>(n \<mapsto> t)))"
| "match \<sigma> (Lit n) t = (if t = Lit n then Some \<sigma> else None)"
| "match \<sigma> (Symtree ps) t =
     (case t of
        Symtree ss \<Rightarrow> if length ps = length ss then match_children \<sigma> ps ss else None
      | _ \<Rightarrow> None)"
| "match_children \<sigma> [] ss = Some \<sigma>"
| "match_children \<sigma> (p # ps) [] = None"
| "match_children \<sigma> (p # ps) (s # ss) =
     (case match \<sigma> p s of None \<Rightarrow> None | Some \<sigma>' \<Rightarrow> match_children \<sigma>' ps ss)"

text \<open>
  Modelled from the spec: \<open>multisubst\<close> of \<open>prover/checker.py\<close> is missing from the
  sources. Section 4.B: every \<open>Var\<close> whose name is bound is replaced by its binding, a
  \<open>Symtree\<close> is rewritten child by child, \<open>Lit\<close> and \<open>Hole\<close> are unchanged.
\<close>

fun multisubst :: "subst \<Rightarrow> Term \<Rightarrow> Term" where
  "multisubst \<sigma> (Var n) = (case \<sigma> n of Some t \<Rightarrow> t | None \<Rightarrow> Var n)"
| "multisubst \<sigma> (Symtree ts) = Symtree (map (multisubst \<sigma>) ts)"
| "multisubst \<sigma> (Lit n) = Lit n"
| "multisubst \<sigma> Hole = Hole"

section \<open>Macro expansion (principia.py)\<close>

text \<open>
  The \<open>for\<close> loop of \<open>macroexpand\<close>: the definitions in order, each matched against the
  term from an empty substitution; the first that matches rewrites the term and ends the
  loop (\<open>break\<close>).
\<close>

fun rewrite :: "(Term \<times> Term) list \<Rightarrow> Term \<Rightarrow> Term" where
  "rewrite [] \<tau> = \<tau>"
| "rewrite ((pattern, body) # rest) \<tau> =
     (case match Map.empty pattern \<tau> of
        Some substs \<Rightarrow> multisubst substs body
      | None \<Rightarrow> rewrite rest \<tau>)"

text \<open>
  \<open>macroexpand(curr, \<tau>)\<close>. The recursion on the children of the rewritten term need not end
  (a definition can rewrite a term to a tree that holds it); the interpreter then raises
  \<open>RecursionError\<close>. The first argument is the number of nested calls still allowed.
\<close>

fun macroexpand :: "nat \<Rightarrow> State \<Rightarrow> Term \<Rightarrow> error + Term" where
  "macroexpand 0 cur \<tau> = Inl RecursionError"
| "macroexpand (Suc n) cur \<tau> =
     (case rewrite (defs cur) \<tau> of
        Symtree children \<Rightarrow>
          (case maplist (macroexpand n cur) children of
             Inl e \<Rightarrow> Inl e
           | Inr cs \<Rightarrow> Inr (Symtree cs))
      | \<tau>' \<Rightarrow> Inr \<tau>')"

definition parseterm :: "env \<Rightarrow> State \<Rightarrow> sexp \<Rightarrow> error + Term" where
  "parseterm E cur expr =
     (case term' E cur expr of
        Inl e \<Rightarrow> Inl e
      | Inr \<tau> \<Rightarrow> macroexpand (limit E) cur \<tau>)"

section \<open>Diagnostics and outcomes\<close>

text \<open>
  One constructor for each \<open>print\<close> of the driver (the wording of a line is no part of
  the behaviour), and \<open>SorryNotice\<close> for the report of an accepted \<open>sorry\<close>.
\<close>

datatype message =
    Postulated Name
  | AlreadyPostulated Name
  | AlreadyDefined Name
  | Checked Name
  | NotChecked Name
  | ErrorMessage verror
  | OperatorAlreadyDefined Name int
  | Checking str
  | PathDoesNotExist str
  | PathIsDirectory str
  | SorryNotice str Term

text \<open>
  What a call of a form handler leaves behind: the state as it is when the call returns
  or raises, the lines printed, and the exception that left the call, if one did.
\<close>

record outcome =
  state :: State
  printed :: "message list"
  raised :: "error option"

definition returns :: "State \<Rightarrow> message list \<Rightarrow> outcome" where
  "returns cur out = \<lparr>state = cur, printed = out, raised = None\<rparr>"

definition raises :: "State \<Rightarrow> message list \<Rightarrow> error \<Rightarrow> outcome" where
  "raises cur out e = \<lparr>state = cur, printed = out, raised = Some e\<rparr>"

definition after :: "message list \<Rightarrow> outcome \<Rightarrow> outcome" where
  "after out r = r\<lparr>printed := out @ printed r\<rparr>"

section \<open>The inference engine (prover.checker)\<close>

type_synonym ctx = "Name \<rightharpoonup> InferenceRule"

definition rule :: "Term list \<Rightarrow> Term \<Rightarrow> InferenceRule" where
  "rule ps c = \<lparr>premises' = ps, conclusion = c\<rparr>"

text \<open>
  Modelled from the spec: \<open>infer\<close> of \<open>prover/checker.py\<close> is missing from the sources.
  Section 4.F: look the edge up (absent: unknown rule); the arguments are as many as the
  premises (else: arity mismatch); the working substitution starts as the explicit
  substitutions; for each premise and argument in order, a \<open>Sorry\<close> is accepted with a
  diagnostic and no binding, a \<open>Lemma\<close> is inferred as the proof with that edge, no
  arguments and no substitutions, and the premise is matched against its conclusion
  (failure: premise mismatch); the result is the conclusion under the substitution. The
  list \<open>bound\<close> is passed through. The lines printed come with the result.
\<close>

function infer :: "ctx \<Rightarrow> Term list \<Rightarrow> Proof \<Rightarrow> message list \<times> (verror + Term)"
  and infer_premises ::
    "ctx \<Rightarrow> Term list \<Rightarrow> Name \<Rightarrow> subst \<Rightarrow> (Term \<times> Argument) list \<Rightarrow> message list \<times> (verror + subst)"
  where
  "infer \<Gamma> bnd p =
     (case \<Gamma> (edge p) of
        None \<Rightarrow> ([], Inl (UnknownRule (edge p)))
      | Some r \<Rightarrow>
          if length (arguments p) \<noteq> length (premises' r)
          then ([], Inl (ArityMismatch (edge p) (length (premises' r)) (length (arguments p))))
          else
            (case infer_premises \<Gamma> bnd (edge p) (substitutions p) (zip (premises' r) (arguments p)) of
               (out, Inl e) \<Rightarrow> (out, Inl e)
             | (out, Inr \<sigma>) \<Rightarrow> (out, Inr (multisubst \<sigma> (conclusion r)))))"
| "infer_premises \<Gamma> bnd nm \<sigma> [] = ([], Inr \<sigma>)"
| "infer_premises \<Gamma> bnd nm \<sigma> ((template, Sorry tag) # rest) =
     (case infer_premises \<Gamma> bnd nm \<sigma> rest of
        (out, res) \<Rightarrow> (SorryNotice tag template # out, res))"
| "infer_premises \<Gamma> bnd nm \<sigma> ((template, Lemma name) # rest) =
     (case infer \<Gamma> bnd \<lparr>edge = name, arguments = [], substitutions = Map.empty\<rparr> of
        (out, Inl e) \<Rightarrow> (out, Inl e)
      | (out, Inr actual) \<Rightarrow>
          (case match \<sigma> template actual of
             None \<Rightarrow> (out, Inl (PremiseMismatch nm template actual))
           | Some \<sigma>' \<Rightarrow>
               (case infer_premises \<Gamma> bnd nm \<sigma>' rest of
                  (out', res) \<Rightarrow> (out @ out', res))))"
  by pat_completeness auto
termination
  by (relation "measure (\<lambda>x. case x of
        Inl (\<Gamma>, bnd, p) \<Rightarrow> 2 * length (arguments p) + 1
      | Inr (\<Gamma>, bnd, nm, \<sigma>, ps) \<Rightarrow> 2 * length ps)") auto

text \<open>
  Modelled from the spec: \<open>check\<close> of \<open>prover/checker.py\<close> is missing from the sources.
  Section 4.F: infer the conclusion of the proof and require structural equality with
  the expected term (else: conclusion mismatch).
\<close>

definition check :: "ctx \<Rightarrow> Term list \<Rightarrow> Term \<Rightarrow> Proof \<Rightarrow> message list \<times> (verror + unit)" where
  "check \<Gamma> bnd expected p =
     (case infer \<Gamma> bnd p of
        (out, Inl e) \<Rightarrow> (out, Inl e)
      | (out, Inr derived) \<Rightarrow>
          if derived = expected then (out, Inr ())
          else (out, Inl (ConclusionMismatch expected derived)))"

section \<open>The driver (principia.py)\<close>

definition containsonly :: "nat \<Rightarrow> str \<Rightarrow> bool" where
  "containsonly ch s = list_all (\<lambda>c. c = ch) s"

text \<open>The two separator characters: the box-drawing line U+2500 and the hyphen.\<close>

definition isseparator :: "sexp \<Rightarrow> bool" where
  "isseparator expr =
     (case expr of
        Symbol v \<Rightarrow> list_ex (\<lambda>ch. containsonly ch v) [9472, 45]
      | _ \<Rightarrow> False)"

text \<open>
  \<open>postulate(curr, expr)\<close>: the \<open>while\<close> loop, with the list \<open>premises\<close> as an argument.
  \<open>expr.pop(0)\<close> on an empty list raises \<open>IndexError\<close>; \<open>nonempty(xs)\<close> of \<open>prover.prelude\<close>
  is, by its name and its uses, the test that a list has an element.
\<close>

fun postulate_loop :: "env \<Rightarrow> State \<Rightarrow> Term list \<Rightarrow> sexp list \<Rightarrow> outcome" where
  "postulate_loop E cur prems [] =
     (if prems \<noteq> [] then raises cur [] (SyntaxError (ascii ''incomplete definition''))
      else returns cur [])"
| "postulate_loop E cur prems (elem # expr) =
     (if isseparator elem then
        (case expr of
           [] \<Rightarrow> raises cur [] IndexError
         | n # expr1 \<Rightarrow>
             (case symbol E n of
                Inl e \<Rightarrow> raises cur [] e
              | Inr name \<Rightarrow>
                  (case expr1 of
                     [] \<Rightarrow> raises cur [] IndexError
                   | c # expr2 \<Rightarrow>
                       (case parseterm E cur c of
                          Inl e \<Rightarrow> raises cur [] e
                        | Inr concl \<Rightarrow>
                            (case context' cur name of
                               Some old \<Rightarrow>
                                 after [AlreadyPostulated name] (postulate_loop E cur [] expr2)
                             | None \<Rightarrow>
                                 after [Postulated name]
                                   (postulate_loop E
                                      (cur\<lparr>context' := (context' cur)(name \<mapsto> rule prems concl)\<rparr>)
                                      [] expr2))))))
      else
        (case parseterm E cur elem of
           Inl e \<Rightarrow> raises cur [] e
         | Inr \<tau> \<Rightarrow> postulate_loop E cur (prems @ [\<tau>]) expr))"

definition postulate :: "env \<Rightarrow> State \<Rightarrow> sexp list \<Rightarrow> outcome" where
  "postulate E cur expr = postulate_loop E cur [] expr"

text \<open>The two signs of a substitution: \<open>:=\<close> and U+2254.\<close>

definition separators :: "str list" where
  "separators = [[58, 61], [8788]]"

text \<open>
  \<open>genenv(curr, it)\<close>, a generator: its pairs in the order it yields them, or the exception
  that ends it. An iterator that is exhausted inside the \<open>try\<close> raises \<open>SyntaxError\<close>; the
  sign is read before the term is parsed and is checked after.
\<close>

fun genenv :: "env \<Rightarrow> State \<Rightarrow> sexp list \<Rightarrow> error + (Name \<times> Term) list" where
  "genenv E cur [] = Inr []"
| "genenv E cur (elem # it) =
     (case symbol E elem of
        Inl e \<Rightarrow> Inl e
      | Inr var \<Rightarrow>
          (case it of
             [] \<Rightarrow> Inl (SyntaxError (8220 # var @ 8221 # ascii '' mapped to nothing''))
           | s # it1 \<Rightarrow>
               (case symbol E s of
                  Inl e \<Rightarrow> Inl e
                | Inr sep \<Rightarrow>
                    (case it1 of
                       [] \<Rightarrow> Inl (SyntaxError (8220 # var @ 8221 # ascii '' mapped to nothing''))
                     | x # it2 \<Rightarrow>
                         (case parseterm E cur x of
                            Inl e \<Rightarrow> Inl e
                          | Inr expr \<Rightarrow>
                              if sep \<notin> set separators
                              then Inl (SyntaxError (ascii ''invalid substitution list''))
                              else
                                (case genenv E cur it2 of
                                   Inl e \<Rightarrow> Inl e
                                 | Inr rest \<Rightarrow> Inr ((var, expr) # rest)))))))"

text \<open>
  \<open>dict(pairs)\<close> and \<open>d.update(pairs)\<close>: the pairs are stored one after the other, a later
  pair overwriting an earlier one with the same key.
\<close>

definition update_all :: "('k \<rightharpoonup> 'v) \<Rightarrow> ('k \<times> 'v) list \<Rightarrow> ('k \<rightharpoonup> 'v)" where
  "update_all m kvs = foldl (\<lambda>d (k, v). d(k \<mapsto> v)) m kvs"

definition dict :: "('k \<times> 'v) list \<Rightarrow> ('k \<rightharpoonup> 'v)" where
  "dict kvs = update_all Map.empty kvs"

text \<open>
  \<open>argument(expr)\<close>: a symbol or an integer is a lemma; anything else is unpacked into two
  and must be \<open>(sorry tag)\<close>.
\<close>

fun argument :: "env \<Rightarrow> sexp \<Rightarrow> error + Argument" where
  "argument E (Symbol v) =
     (case symbol E (Symbol v) of Inl e \<Rightarrow> Inl e | Inr name \<Rightarrow> Inr (Lemma name))"
| "argument E (Integer i) =
     (case symbol E (Integer i) of Inl e \<Rightarrow> Inl e | Inr name \<Rightarrow> Inr (Lemma name))"
| "argument E (List [e, tag]) =
     (if e \<noteq> Symbol (ascii ''sorry'') then Inl (SyntaxError (ascii ''invalid proof term''))
      else (case symbol E tag of Inl e \<Rightarrow> Inl e | Inr name \<Rightarrow> Inr (Sorry name)))"
| "argument E (List xs) = Inl ValueError"
| "argument E (Bracket xs) = Inl TypeError"

text \<open>
  \<open>proof(curr, expr)\<close>. \<open>first(args)\<close> of \<open>prover.prelude\<close> is the head of the list, and no
  \<open>Bracket\<close> when the list is empty. The fields of the \<open>Proof\<close> are computed in the order
  they are written: the edge, the arguments, the substitutions.
\<close>

definition proof' :: "env \<Rightarrow> State \<Rightarrow> sexp \<Rightarrow> error + Proof" where
  "proof' E cur expr =
     (case expr of
        List [] \<Rightarrow> Inl ValueError
      | List (e # args) \<Rightarrow>
          (case (case args of Bracket b # args1 \<Rightarrow> (b, args1) | _ \<Rightarrow> ([], args)) of
             (substs, args2) \<Rightarrow>
               (case symbol E e of
                  Inl err \<Rightarrow> Inl err
                | Inr nm \<Rightarrow>
                    (case maplist (argument E) args2 of
                       Inl err \<Rightarrow> Inl err
                     | Inr as \<Rightarrow>
                         (case genenv E cur substs of
                            Inl err \<Rightarrow> Inl err
                          | Inr pairs \<Rightarrow>
                              Inr \<lparr>edge = nm, arguments = as, substitutions = dict pairs\<rparr>))))
      | _ \<Rightarrow> Inl TypeError)"

fun proofs :: "env \<Rightarrow> State \<Rightarrow> sexp list \<Rightarrow> error + (Name \<times> Proof) list" where
  "proofs E cur [] = Inr []"
| "proofs E cur [n] = (case symbol E n of Inl e \<Rightarrow> Inl e | Inr name \<Rightarrow> Inl IndexError)"
| "proofs E cur (n # b # expr) =
     (case symbol E n of
        Inl e \<Rightarrow> Inl e
      | Inr name \<Rightarrow>
          (case proof' E cur b of
             Inl e \<Rightarrow> Inl e
           | Inr body \<Rightarrow>
               (case proofs E cur expr of
                  Inl e \<Rightarrow> Inl e
                | Inr res \<Rightarrow> Inr ((name, body) # res))))"

text \<open>
  \<open>preamble(curr, expr)\<close>: the \<open>while True\<close> loop, with \<open>names\<close>, \<open>premises\<close> and \<open>expected\<close>
  as arguments. \<open>pop()\<close> takes the last element of a list and raises \<open>IndexError\<close> on an
  empty one.
\<close>

fun preamble_loop ::
  "env \<Rightarrow> State \<Rightarrow> Name list \<Rightarrow> Term list \<Rightarrow> nat \<Rightarrow> sexp list
     \<Rightarrow> error + (Name \<times> Term \<times> Name list \<times> Term list \<times> (Name \<times> Proof) list)" where
  "preamble_loop E cur names prems expected [] = Inl IndexError"
| "preamble_loop E cur names prems expected (elem # expr) =
     (if isseparator elem then
        (case expr of
           [] \<Rightarrow> Inl IndexError
         | n # expr1 \<Rightarrow>
             (case symbol E n of
                Inl e \<Rightarrow> Inl e
              | Inr name \<Rightarrow> preamble_loop E cur (names @ [name]) prems (expected + 1) expr1))
      else if expected \<noteq> 0 then
        (case parseterm E cur elem of
           Inl e \<Rightarrow> Inl e
         | Inr \<tau> \<Rightarrow> preamble_loop E cur names (prems @ [\<tau>]) (expected - 1) expr)
      else if names = [] \<or> prems = [] then Inl IndexError
      else
        (case proofs E cur (elem # expr) of
           Inl e \<Rightarrow> Inl e
         | Inr ps \<Rightarrow> Inr (last names, last prems, butlast names, butlast prems, ps)))"

definition preamble ::
  "env \<Rightarrow> State \<Rightarrow> sexp list
     \<Rightarrow> error + (Name \<times> Term \<times> Name list \<times> Term list \<times> (Name \<times> Proof) list)" where
  "preamble E cur expr = preamble_loop E cur [] [] 0 expr"

text \<open>
  The \<open>for\<close> loop in the \<open>try\<close> block of \<open>theorem\<close>: each local line is inferred in the
  local context as it stands and stored in it as a rule without premises.
\<close>

fun locals :: "ctx \<Rightarrow> Term list \<Rightarrow> (Name \<times> Proof) list \<Rightarrow> message list \<times> (verror + ctx)" where
  "locals \<Gamma> bnd [] = ([], Inr \<Gamma>)"
| "locals \<Gamma> bnd ((x, xs) # rest) =
     (case infer \<Gamma> bnd xs of
        (out, Inl e) \<Rightarrow> (out, Inl e)
      | (out, Inr \<tau>) \<Rightarrow>
          (case locals (\<Gamma>(x \<mapsto> rule [] \<tau>)) bnd rest of
             (out', res) \<Rightarrow> (out @ out', res)))"

text \<open>The statements of the \<open>try\<close> block up to the \<open>check\<close>.\<close>

definition verify ::
  "ctx \<Rightarrow> Term list \<Rightarrow> (Name \<times> Proof) list \<Rightarrow> Term \<Rightarrow> Proof \<Rightarrow> message list \<times> (verror + unit)" where
  "verify \<Gamma> bnd ps concl p =
     (case locals \<Gamma> bnd ps of
        (out, Inl e) \<Rightarrow> (out, Inl e)
      | (out, Inr \<Gamma>') \<Rightarrow>
          (case check \<Gamma>' bnd concl p of (out', res) \<Rightarrow> (out @ out', res)))"

text \<open>
  \<open>theorem(curr, expr)\<close>. The local context is a copy of the global one, updated with the
  premises of the theorem under their names; only a \<open>VerificationError\<close> is caught.
\<close>

definition theorem_form :: "env \<Rightarrow> State \<Rightarrow> sexp list \<Rightarrow> outcome" where
  "theorem_form E cur expr =
     (if expr = [] then returns cur []
      else
        (case preamble E cur expr of
           Inl e \<Rightarrow> raises cur [] e
         | Inr (name, concl, names, prems, ps) \<Rightarrow>
             if ps = [] then raises cur [] IndexError
             else
               (let p = snd (last ps);
                    \<Gamma> = update_all (context' cur) (zip names (map (rule []) prems))
                in case context' cur name of
                     Some old \<Rightarrow> returns cur [AlreadyDefined name]
                   | None \<Rightarrow>
                       (case verify \<Gamma> (bound cur) (butlast ps) concl p of
                          (out, Inr u) \<Rightarrow>
                            returns (cur\<lparr>context' := (context' cur)(name \<mapsto> rule prems concl)\<rparr>)
                              (out @ [Checked name])
                        | (out, Inl e) \<Rightarrow>
                            returns cur (out @ [NotChecked name, ErrorMessage e])))))"

text \<open>\<open>infix(curr, expr)\<close>; the \<open>assert\<close> refuses a precedence that is no integer.\<close>

definition infix_form :: "env \<Rightarrow> State \<Rightarrow> sexp list \<Rightarrow> outcome" where
  "infix_form E cur expr =
     (case expr of
        [ident, prec] \<Rightarrow>
          (case prec of
             Integer n \<Rightarrow>
               (case symbol E ident of
                  Inl e \<Rightarrow> raises cur [] e
                | Inr name \<Rightarrow>
                    (case infix' cur name of
                       Some old \<Rightarrow> returns cur [OperatorAlreadyDefined name old]
                     | None \<Rightarrow> returns (cur\<lparr>infix' := (infix' cur)(name \<mapsto> n)\<rparr>) []))
           | _ \<Rightarrow> raises cur [] (AssertionError (ascii ''precedence must be an integer'')))
      | _ \<Rightarrow> raises cur [] ValueError)"

definition variables_form :: "env \<Rightarrow> State \<Rightarrow> sexp list \<Rightarrow> outcome" where
  "variables_form E cur expr =
     (case maplist (symbol E) expr of
        Inl e \<Rightarrow> raises cur [] e
      | Inr names \<Rightarrow> returns (cur\<lparr>variables := variables cur @ names\<rparr>) [])"

definition bound_form :: "env \<Rightarrow> State \<Rightarrow> sexp list \<Rightarrow> outcome" where
  "bound_form E cur expr =
     (case maplist (term' E cur) expr of
        Inl e \<Rightarrow> raises cur [] e
      | Inr ts \<Rightarrow> returns (cur\<lparr>bound := bound cur @ ts\<rparr>) [])"

definition define_form :: "env \<Rightarrow> State \<Rightarrow> sexp list \<Rightarrow> outcome" where
  "define_form E cur expr =
     (case expr of
        [pattern, body] \<Rightarrow>
          (case term' E cur pattern of
             Inl e \<Rightarrow> raises cur [] e
           | Inr pat \<Rightarrow>
               (case parseterm E cur body of
                  Inl e \<Rightarrow> raises cur [] e
                | Inr b \<Rightarrow> returns (cur\<lparr>defs := defs cur @ [(pat, b)]\<rparr>) []))
      | _ \<Rightarrow> raises cur [] ValueError)"

text \<open>
  \<open>include(curr, exprs)\<close>; \<open>dopath\<close> is an argument here, since it is defined further down
  and calls back into the forms. An exception leaves the loop.
\<close>

fun include_form :: "env \<Rightarrow> (State \<Rightarrow> str \<Rightarrow> outcome) \<Rightarrow> State \<Rightarrow> sexp list \<Rightarrow> outcome" where
  "include_form E inc cur [] = returns cur []"
| "include_form E inc cur (expr # exprs) =
     (case symbol E expr of
        Inl e \<Rightarrow> raises cur [] e
      | Inr path \<Rightarrow>
          (let r = inc cur path
           in case raised r of
                Some e \<Rightarrow> r
              | None \<Rightarrow> after (printed r) (include_form E inc (state r) exprs)))"

text \<open>The dictionary \<open>forms\<close>, from the head of a form to its handler.\<close>

definition forms ::
  "env \<Rightarrow> (State \<Rightarrow> str \<Rightarrow> outcome) \<Rightarrow> (str \<times> (State \<Rightarrow> sexp list \<Rightarrow> outcome)) list" where
  "forms E inc =
     [(ascii ''postulate'', postulate E),
      (ascii ''theorem'', theorem_form E),
      (ascii ''lemma'', theorem_form E),
      (ascii ''infix'', infix_form E),
      (ascii ''variables'', variables_form E),
      (ascii ''bound'', bound_form E),
      (ascii ''define'', define_form E),
      (ascii ''include'', include_form E inc)]"

text \<open>
  \<open>evaluate(curr, expr)\<close>: the form is unpacked into its head and its tail, and the
  \<open>assert\<close> refuses a head that is no key of \<open>forms\<close>.
\<close>

definition evaluate :: "env \<Rightarrow> (State \<Rightarrow> str \<Rightarrow> outcome) \<Rightarrow> State \<Rightarrow> sexp \<Rightarrow> outcome" where
  "evaluate E inc cur expr =
     (case expr of
        List [] \<Rightarrow> raises cur [] ValueError
      | List (h # tail) \<Rightarrow>
          (case symbol E h of
             Inl e \<Rightarrow> raises cur [] e
           | Inr form \<Rightarrow>
               (case map_of (forms E inc) form of
                  None \<Rightarrow>
                    raises cur [] (AssertionError (ascii ''unknown form '' @ 8220 # form @ [8221]))
                | Some handler \<Rightarrow> handler cur tail))
      | _ \<Rightarrow> raises cur [] TypeError)"

text \<open>The \<open>for\<close> loop of \<open>doexprs\<close> over the forms of a file.\<close>

fun doforms :: "env \<Rightarrow> (State \<Rightarrow> str \<Rightarrow> outcome) \<Rightarrow> State \<Rightarrow> sexp list \<Rightarrow> outcome" where
  "doforms E inc cur [] = returns cur []"
| "doforms E inc cur (expr # exprs) =
     (let r = evaluate E inc cur expr
      in case raised r of
           Some e \<Rightarrow> r
         | None \<Rightarrow> after (printed r) (doforms E inc (state r) exprs))"

text \<open>
  \<open>doexprs(curr, string)\<close>, on the forms the reader returns for the string: the list of
  variables is emptied, then the forms are evaluated in order.
\<close>

definition doexprs :: "env \<Rightarrow> (State \<Rightarrow> str \<Rightarrow> outcome) \<Rightarrow> State \<Rightarrow> sexp list \<Rightarrow> outcome" where
  "doexprs E inc cur exprs = doforms E inc (cur\<lparr>variables := []\<rparr>) exprs"

text \<open>
  The file system: a path is missing, a directory, or a file, given by the forms the
  reader returns for its text.
\<close>

datatype entry = Missing | Directory | File "sexp list"

definition dofile ::
  "env \<Rightarrow> (State \<Rightarrow> str \<Rightarrow> outcome) \<Rightarrow> State \<Rightarrow> str \<Rightarrow> sexp list \<Rightarrow> outcome" where
  "dofile E inc cur filename exprs = after [Checking filename] (doexprs E inc cur exprs)"

text \<open>
  \<open>dopath(state, path)\<close>. A file can include itself, and the nesting of files is bounded
  by the interpreter alone: the first argument is the number of nested files still
  allowed, and \<open>RecursionError\<close> is raised when none is.
\<close>

fun dopath :: "nat \<Rightarrow> env \<Rightarrow> (str \<Rightarrow> entry) \<Rightarrow> State \<Rightarrow> str \<Rightarrow> outcome" where
  "dopath 0 E fs cur path = raises cur [] RecursionError"
| "dopath (Suc n) E fs cur path =
     (case fs path of
        Missing \<Rightarrow> returns cur [PathDoesNotExist path]
      | Directory \<Rightarrow> returns cur [PathIsDirectory path]
      | File exprs \<Rightarrow> dofile E (dopath n E fs) cur path exprs)"

text \<open>
  The last three lines of the module: the files of the command line in order, into one
  state. Nothing catches an exception here: it ends the loop and the run.
\<close>

fun main_loop :: "env \<Rightarrow> (str \<Rightarrow> entry) \<Rightarrow> State \<Rightarrow> str list \<Rightarrow> outcome" where
  "main_loop E fs cur [] = returns cur []"
| "main_loop E fs cur (filename # filenames) =
     (let r = dopath (limit E) E fs cur filename
      in case raised r of
           Some e \<Rightarrow> r
         | None \<Rightarrow> after (printed r) (main_loop E fs (state r) filenames))"

definition main :: "env \<Rightarrow> (str \<Rightarrow> entry) \<Rightarrow> str list \<Rightarrow> outcome" where
  "main E fs filenames = main_loop E fs State0 filenames"

section \<open>An instance of the parser, for evaluation\<close>

lemma maplist_cong [fundef_cong]:
  "xs = ys \<Longrightarrow> (\<And>x. x \<in> set ys \<Longrightarrow> f x = g x) \<Longrightarrow> maplist f xs = maplist g ys"
  by (induction ys arbitrary: xs) (auto split: sum.splits)

text \<open>
  Modelled from the spec: \<open>symbol\<close> and \<open>term\<close> of \<open>prover/parser.py\<close> are missing from the
  sources. The statements below are proved for every parser; this instance evaluates
  them at concrete inputs. Section 4.D: a leaf that is in the list of variables is a
  \<open>Var\<close>, the underscore is a \<open>Hole\<close>, any other leaf is a \<open>Lit\<close>, and the children of a
  list keep their order. The instance resolves no operators (the inputs it is used on
  have none) and takes the text of a symbol as its name.
\<close>

fun symbol0 :: "sexp \<Rightarrow> error + Name" where
  "symbol0 (Symbol v) = Inr v"
| "symbol0 x = Inl TypeError"

fun term0 :: "State \<Rightarrow> sexp \<Rightarrow> error + Term" where
  "term0 cur (Symbol v) =
     Inr (if v \<in> set (variables cur) then Var v else if v = ascii ''_'' then Hole else Lit v)"
| "term0 cur (List xs) =
     (case maplist (term0 cur) xs of Inl e \<Rightarrow> Inl e | Inr ts \<Rightarrow> Inr (Symtree ts))"
| "term0 cur x = Inl TypeError"

definition E0 :: env where
  "E0 = \<lparr>symbol = symbol0, term' = term0, limit = 1000\<rparr>"

text \<open>
  The head rewrite in the words of the spec: the first pair of the definitions whose
  pattern matches the term from the empty substitution, if there is one, and the body of
  that pair under the bindings of the match.
\<close>

definition first_match :: "(Term \<times> Term) list \<Rightarrow> Term \<Rightarrow> (Term \<times> Term) option" where
  "first_match ds t = find (\<lambda>(pattern, body). match Map.empty pattern t \<noteq> None) ds"

definition head_rewrite :: "(Term \<times> Term) list \<Rightarrow> Term \<Rightarrow> Term" where
  "head_rewrite ds t =
     (case first_match ds t of
        None \<Rightarrow> t
      | Some (pattern, body) \<Rightarrow> multisubst (the (match Map.empty pattern t)) body)"

lemma rewrite_head_rewrite: "rewrite ds t = head_rewrite ds t"
  by (induction ds) (auto simp: head_rewrite_def first_match_def split: option.splits)

section \<open>Macro expansion rewrites the head once\<close>

lemma macroexpand_unfold:
  "macroexpand n cur \<tau> =
     (if n = 0 then Inl RecursionError
      else
        (case rewrite (defs cur) \<tau> of
           Symtree children \<Rightarrow>
             (case maplist (macroexpand (n - 1) cur) children of
                Inl e \<Rightarrow> Inl e
              | Inr cs \<Rightarrow> Inr (Symtree cs))
         | \<tau>' \<Rightarrow> Inr \<tau>'))"
  by (cases n) (auto split: Term.splits sum.splits)

text \<open>
  C2. For every term, macro expansion performs at most one head rewrite: the first
  definition, in declaration order, whose pattern matches the term from the empty
  substitution replaces the term by its body under the bindings of the match, and no
  further definition is tried. Then, rewritten or not, a \<open>Symtree\<close> has each child
  expanded in order and the \<open>Symtree\<close> of the expanded children is returned; any other
  term is returned as it is. (The loop of the source on the left, the words of the spec
  on the right; \<open>Suc n\<close> is any positive number of nested calls.)
\<close>

theorem macroexpand_one_head_rewrite:
  "macroexpand (Suc n) cur t =
     (case head_rewrite (defs cur) t of
        Symtree cs \<Rightarrow>
          (case maplist (macroexpand n cur) cs of
             Inl e \<Rightarrow> Inl e
           | Inr cs' \<Rightarrow> Inr (Symtree cs'))
      | t' \<Rightarrow> Inr t')"
  by (simp add: rewrite_head_rewrite)

text \<open>
  Two definitions that both match \<open>(not A)\<close>: the first one rewrites it, to \<open>(imp A bot)\<close>.
  The second one matches every term: it rewrites the three children, and not the
  rewritten head, which it matches as well.
\<close>

definition neg_defs :: "(Term \<times> Term) list" where
  "neg_defs =
     [(Symtree [Lit (ascii ''not''), Var (ascii ''x'')],
       Symtree [Lit (ascii ''imp''), Var (ascii ''x''), Lit (ascii ''bot'')]),
      (Var (ascii ''y''), Lit (ascii ''never''))]"

theorem macroexpand_one_head_rewrite_witness:
  "macroexpand (Suc (Suc 0)) (State0\<lparr>defs := neg_defs\<rparr>)
       (Symtree [Lit (ascii ''not''), Lit (ascii ''A'')])
     = Inr (Symtree [Lit (ascii ''never''), Lit (ascii ''never''), Lit (ascii ''never'')])"
  apply (subst macroexpand_one_head_rewrite)
  apply (simp add: head_rewrite_def first_match_def neg_defs_def ascii_def State0_def)
  done

section \<open>Outcomes and the dispatch of forms\<close>

lemma after_simps [simp]:
  "state (after out r) = state r"
  "printed (after out r) = out @ printed r"
  "raised (after out r) = raised r"
  by (simp_all add: after_def)

lemma returns_simps [simp]:
  "state (returns cur out) = cur"
  "printed (returns cur out) = out"
  "raised (returns cur out) = None"
  by (simp_all add: returns_def)

lemma raises_simps [simp]:
  "state (raises cur out e) = cur"
  "printed (raises cur out e) = out"
  "raised (raises cur out e) = Some e"
  by (simp_all add: raises_def)

lemma forms_lookup:
  "map_of (forms E inc) (ascii ''postulate'') = Some (postulate E)"
  "map_of (forms E inc) (ascii ''theorem'') = Some (theorem_form E)"
  "map_of (forms E inc) (ascii ''lemma'') = Some (theorem_form E)"
  "map_of (forms E inc) (ascii ''infix'') = Some (infix_form E)"
  "map_of (forms E inc) (ascii ''variables'') = Some (variables_form E)"
  "map_of (forms E inc) (ascii ''bound'') = Some (bound_form E)"
  "map_of (forms E inc) (ascii ''define'') = Some (define_form E)"
  "map_of (forms E inc) (ascii ''include'') = Some (include_form E inc)"
  by (simp_all add: forms_def ascii_def)

text \<open>A file system without files, for the evaluation of forms that include nothing.\<close>

definition nofiles :: "str \<Rightarrow> entry" where
  "nofiles path = Missing"

section \<open>An empty theorem form\<close>

text \<open>
  C10. A \<open>theorem\<close> or \<open>lemma\<close> form with an empty body is silently ignored: it prints
  nothing, raises nothing, adds nothing to the context and leaves the state as it was;
  the forms after it are processed from the same state.
\<close>

theorem empty_theorem_ignored:
  assumes "symbol E h = Inr form" and "form = ascii ''theorem'' \<or> form = ascii ''lemma''"
  shows "theorem_form E cur [] = \<lparr>state = cur, printed = [], raised = None\<rparr>
       \<and> evaluate E inc cur (List [h]) = \<lparr>state = cur, printed = [], raised = None\<rparr>
       \<and> doforms E inc cur (List [h] # rest) = doforms E inc cur rest"
  using assms by (auto simp: evaluate_def forms_lookup theorem_form_def returns_def after_def)

theorem empty_theorem_ignored_witness:
  "symbol E0 (Symbol (ascii ''lemma'')) = Inr (ascii ''lemma'')
   \<and> evaluate E0 (dopath 0 E0 nofiles) State0 (List [Symbol (ascii ''lemma'')])
       = \<lparr>state = State0, printed = [], raised = None\<rparr>"
  using empty_theorem_ignored
    [of E0 "Symbol (ascii ''lemma'')" "ascii ''lemma''" State0 "dopath 0 E0 nofiles" "[]"]
  by (simp add: E0_def)

section \<open>An operator that is already registered\<close>

text \<open>
  C9. For every form \<open>(infix name n)\<close> whose operator name is already registered, the
  kernel prints an error diagnostic and keeps the state, and with it the original
  precedence; the new precedence is discarded and the forms after it are processed.
\<close>

theorem registered_operator_kept:
  assumes "symbol E ident = Inr name" and "infix' cur name = Some old"
    and "symbol E h = Inr (ascii ''infix'')"
  shows "infix_form E cur [ident, Integer n]
           = \<lparr>state = cur, printed = [OperatorAlreadyDefined name old], raised = None\<rparr>
       \<and> doforms E inc cur (List [h, ident, Integer n] # rest)
           = after [OperatorAlreadyDefined name old] (doforms E inc cur rest)"
  using assms by (simp add: evaluate_def forms_lookup infix_form_def returns_def)

definition plus6 :: State where
  "plus6 = State0\<lparr>infix' := [ascii ''+'' \<mapsto> 6]\<rparr>"

theorem registered_operator_kept_witness:
  "infix' plus6 (ascii ''+'') = Some 6
   \<and> infix_form E0 plus6 [Symbol (ascii ''+''), Integer 7]
       = \<lparr>state = plus6, printed = [OperatorAlreadyDefined (ascii ''+'') 6], raised = None\<rparr>
   \<and> infix' (state (infix_form E0 plus6 [Symbol (ascii ''+''), Integer 7])) (ascii ''+'') = Some 6"
  using registered_operator_kept
    [of E0 "Symbol (ascii ''+'')" "ascii ''+''" plus6 6 "Symbol (ascii ''infix'')" 7
       "dopath 0 E0 nofiles" "[]"]
  by (simp add: E0_def plus6_def)

section \<open>Explicit substitutions: the last binding of a variable wins\<close>

lemma update_all_Cons: "update_all m ((k, v) # kvs) = update_all (m(k \<mapsto> v)) kvs"
  by (simp add: update_all_def)

lemma update_all_map_of: "update_all m kvs = m ++ map_of (rev kvs)"
proof (induction kvs arbitrary: m)
  case Nil
  then show ?case by (simp add: update_all_def)
next
  case (Cons kv kvs)
  obtain k v where kv: "kv = (k, v)" by (cases kv)
  have "update_all m (kv # kvs) = m(k \<mapsto> v) ++ map_of (rev kvs)"
    unfolding kv update_all_Cons by (rule Cons.IH)
  also have "\<dots> = m ++ (map_of [(k, v)] ++ map_of (rev kvs))"
    by (simp add: map_add_assoc [symmetric] map_add_upd_left)
  also have "\<dots> = m ++ map_of (rev (kv # kvs))"
    by (simp add: kv)
  finally show ?case .
qed

lemma dict_map_of: "dict kvs = map_of (rev kvs)"
  by (simp add: dict_def update_all_map_of)

lemma genenv_triples:
  "genenv E cur items = Inr pairs \<Longrightarrow>
     length items = 3 * length pairs \<and>
     (\<forall>i<length pairs.
        symbol E (items ! (3 * i)) = Inr (fst (pairs ! i)) \<and>
        (\<exists>sep \<in> set separators. symbol E (items ! (3 * i + 1)) = Inr sep) \<and>
        parseterm E cur (items ! (3 * i + 2)) = Inr (snd (pairs ! i)))"
proof (induction E cur items arbitrary: pairs rule: genenv.induct)
  case (1 E cur)
  then show ?case by simp
next
  case (2 E cur elem it)
  from "2.prems" obtain var s sep x expr it2 rest where
    a: "symbol E elem = Inr var" "it = s # x # it2" "symbol E s = Inr sep"
       "parseterm E cur x = Inr expr" "sep \<in> set separators" "genenv E cur it2 = Inr rest"
       "pairs = (var, expr) # rest"
    by (auto split: sum.splits list.splits if_splits)
  have ih: "length it2 = 3 * length rest \<and>
     (\<forall>i<length rest.
        symbol E (it2 ! (3 * i)) = Inr (fst (rest ! i)) \<and>
        (\<exists>sep \<in> set separators. symbol E (it2 ! (3 * i + 1)) = Inr sep) \<and>
        parseterm E cur (it2 ! (3 * i + 2)) = Inr (snd (rest ! i)))"
    using "2.IH" a by blast
  show ?case
  proof (intro conjI allI impI)
    show "length (elem # it) = 3 * length pairs" using a ih by simp
  next
    fix i assume i: "i < length pairs"
    show "symbol E ((elem # it) ! (3 * i)) = Inr (fst (pairs ! i))"
      using a ih i by (cases i) (auto simp: nth_Cons')
    show "\<exists>sep\<in>set separators. symbol E ((elem # it) ! (3 * i + 1)) = Inr sep"
      using a ih i by (cases i) (auto simp: nth_Cons')
    show "parseterm E cur ((elem # it) ! (3 * i + 2)) = Inr (snd (pairs ! i))"
      using a ih i by (cases i) (auto simp: nth_Cons')
  qed
qed

lemma map_of_rev_last:
  assumes "i < length pairs"
    and "\<forall>j<length pairs. i < j \<longrightarrow> fst (pairs ! j) \<noteq> fst (pairs ! i)"
  shows "map_of (rev pairs) (fst (pairs ! i)) = Some (snd (pairs ! i))"
  using assms
proof (induction pairs arbitrary: i rule: rev_induct)
  case Nil
  then show ?case by simp
next
  case (snoc kv pairs)
  show ?case
  proof (cases "i = length pairs")
    case True
    then show ?thesis by (cases kv) simp
  next
    case False
    with snoc.prems have i: "i < length pairs" by simp
    have ne: "fst kv \<noteq> fst (pairs ! i)"
      using snoc.prems(2) [rule_format, of "length pairs"] i by (simp add: nth_append)
    have "\<forall>j<length pairs. i < j \<longrightarrow> fst (pairs ! j) \<noteq> fst (pairs ! i)"
    proof (intro allI impI)
      fix j assume "j < length pairs" "i < j"
      then show "fst (pairs ! j) \<noteq> fst (pairs ! i)"
        using snoc.prems(2) [rule_format, of j] i by (simp add: nth_append)
    qed
    from snoc.IH [OF i this] ne i show ?thesis
      by (cases kv) (auto simp: nth_append)
  qed
qed

text \<open>
  C7. For every proof term with a bracketed list of explicit substitutions, the pairs of
  the list are read in the order they are written (three elements each: the variable,
  the sign, the term), and the substitution map of the parsed \<open>Proof\<close> has exactly the
  variables written as its keys, each bound once: to the term of the last pair that
  names it, also when the variable is written more than once.
\<close>

theorem substitutions_last_binding:
  assumes "proof' E cur (List (e # Bracket items # args)) = Inr p"
  shows "\<exists>pairs. genenv E cur items = Inr pairs
       \<and> length items = 3 * length pairs
       \<and> (\<forall>i<length pairs.
            symbol E (items ! (3 * i)) = Inr (fst (pairs ! i)) \<and>
            parseterm E cur (items ! (3 * i + 2)) = Inr (snd (pairs ! i)))
       \<and> dom (substitutions p) = fst ` set pairs
       \<and> (\<forall>i<length pairs.
            (\<forall>j<length pairs. i < j \<longrightarrow> fst (pairs ! j) \<noteq> fst (pairs ! i)) \<longrightarrow>
            substitutions p (fst (pairs ! i)) = Some (snd (pairs ! i)))"
proof -
  from assms obtain pairs where g: "genenv E cur items = Inr pairs"
    and s: "substitutions p = dict pairs"
    by (auto simp: proof'_def split: sum.splits)
  have d: "dom (substitutions p) = fst ` set pairs"
    by (simp add: s dict_map_of dom_map_of_conv_image_fst)
  from genenv_triples [OF g] map_of_rev_last [of _ pairs] g d show ?thesis
    by (auto simp: s dict_map_of)
qed


text \<open>The proof term \<open>(MP [x := A x := B] h)\<close>, with the second sign written as U+2254.\<close>

definition twice :: "sexp list" where
  "twice = [Symbol (ascii ''x''), Symbol [58, 61], Symbol (ascii ''A''),
            Symbol (ascii ''x''), Symbol [8788], Symbol (ascii ''B'')]"

definition mp_twice :: sexp where
  "mp_twice = List [Symbol (ascii ''MP''), Bracket twice, Symbol (ascii ''h'')]"

lemma E0_simps [simp]:
  "symbol E0 = symbol0" "term' E0 = term0" "limit E0 = 1000"
  by (simp_all add: E0_def)

lemma parseterm_E0_symbol:
  "parseterm E0 State0 (Symbol v) = Inr (if v = ascii ''_'' then Hole else Lit v)"
  by (simp add: parseterm_def State0_def macroexpand_unfold)

lemma genenv_twice:
  "genenv E0 State0 twice = Inr [(ascii ''x'', Lit (ascii ''A'')), (ascii ''x'', Lit (ascii ''B''))]"
  by (simp add: twice_def parseterm_E0_symbol separators_def ascii_def)

theorem substitutions_last_binding_witness:
  "\<exists>p. proof' E0 State0 mp_twice = Inr p
     \<and> substitutions p (ascii ''x'') = Some (Lit (ascii ''B''))
     \<and> dom (substitutions p) = {ascii ''x''}"
proof -
  obtain p where p: "proof' E0 State0 mp_twice = Inr p"
    by (simp add: proof'_def mp_twice_def genenv_twice)
  from substitutions_last_binding [OF p [unfolded mp_twice_def]]
  obtain pairs where g: "genenv E0 State0 twice = Inr pairs"
    and d: "dom (substitutions p) = fst ` set pairs"
    and l: "\<forall>i<length pairs.
            (\<forall>j<length pairs. i < j \<longrightarrow> fst (pairs ! j) \<noteq> fst (pairs ! i)) \<longrightarrow>
            substitutions p (fst (pairs ! i)) = Some (snd (pairs ! i))"
    by blast
  from g have pairs: "pairs = [(ascii ''x'', Lit (ascii ''A'')), (ascii ''x'', Lit (ascii ''B''))]"
    by (simp add: genenv_twice)
  from l [rule_format, of 1] have "substitutions p (ascii ''x'') = Some (Lit (ascii ''B''))"
    by (simp add: pairs)
  with p d show ?thesis by (auto simp: pairs)
qed

section \<open>A theorem whose proof fails\<close>

lemma proofs_nonempty: "proofs E cur (x # xs) = Inr ps \<Longrightarrow> ps \<noteq> []"
  by (cases xs) (auto split: sum.splits)

lemma preamble_loop_nonempty:
  "preamble_loop E cur names prems expected expr = Inr (name, concl, names', prems', ps) \<Longrightarrow> ps \<noteq> []"
proof (induction E cur names prems expected expr rule: preamble_loop.induct)
  case (1 E cur names prems expected)
  then show ?case by simp
next
  case (2 E cur names prems expected elem expr)
  then show ?case
    by (auto split: if_splits list.splits sum.splits dest: proofs_nonempty)
qed

lemma preamble_nonempty:
  "preamble E cur expr = Inr (name, concl, names, prems, ps) \<Longrightarrow> ps \<noteq> [] \<and> expr \<noteq> []"
  by (auto simp: preamble_def dest: preamble_loop_nonempty)

lemma theorem_form_unfold:
  assumes "preamble E cur expr = Inr (name, concl, names, prems, ps)"
  shows "theorem_form E cur expr =
     (case context' cur name of
        Some old \<Rightarrow> returns cur [AlreadyDefined name]
      | None \<Rightarrow>
          (case verify (update_all (context' cur) (zip names (map (rule []) prems)))
                  (bound cur) (butlast ps) concl (snd (last ps)) of
             (out, Inr u) \<Rightarrow>
               returns (cur\<lparr>context' := (context' cur)(name \<mapsto> rule prems concl)\<rparr>)
                 (out @ [Checked name])
           | (out, Inl e) \<Rightarrow> returns cur (out @ [NotChecked name, ErrorMessage e])))"
  using assms preamble_nonempty [OF assms]
  by (simp add: theorem_form_def Let_def)

lemma doforms_theorem:
  assumes "symbol E h = Inr form" and "form = ascii ''theorem'' \<or> form = ascii ''lemma''"
    and "raised (theorem_form E cur expr) = None"
  shows "doforms E inc cur (List (h # expr) # rest)
         = after (printed (theorem_form E cur expr))
             (doforms E inc (state (theorem_form E cur expr)) rest)"
  using assms by (auto simp: evaluate_def forms_lookup Let_def)

text \<open>
  C1. For every \<open>theorem\<close> or \<open>lemma\<close> form whose proof fails verification (a local line or
  the final check ends in an unknown rule, an arity mismatch, a premise mismatch or a
  conclusion mismatch), the kernel prints a diagnostic, the name of the theorem is not
  added to the global context, the state is exactly what it was before the form, and the
  forms after it are processed.
\<close>

theorem failed_theorem_rejected:
  assumes "preamble E cur expr = Inr (name, concl, names, prems, ps)"
    and "verify (update_all (context' cur) (zip names (map (rule []) prems)))
           (bound cur) (butlast ps) concl (snd (last ps)) = (out, Inl e)"
    and "symbol E h = Inr form" and "form = ascii ''theorem'' \<or> form = ascii ''lemma''"
  shows "theorem_form E cur expr =
           \<lparr>state = cur,
            printed = (case context' cur name of
                         None \<Rightarrow> out @ [NotChecked name, ErrorMessage e]
                       | Some old \<Rightarrow> [AlreadyDefined name]),
            raised = None\<rparr>
       \<and> printed (theorem_form E cur expr) \<noteq> []
       \<and> context' (state (theorem_form E cur expr)) = context' cur
       \<and> doforms E inc cur (List (h # expr) # rest)
           = after (printed (theorem_form E cur expr)) (doforms E inc cur rest)"
proof -
  have t: "theorem_form E cur expr =
           \<lparr>state = cur,
            printed = (case context' cur name of
                         None \<Rightarrow> out @ [NotChecked name, ErrorMessage e]
                       | Some old \<Rightarrow> [AlreadyDefined name]),
            raised = None\<rparr>"
    using assms(2) by (simp add: theorem_form_unfold [OF assms(1)] returns_def split: option.splits)
  have p: "printed (theorem_form E cur expr) \<noteq> []"
    by (simp add: t split: option.splits)
  have d: "doforms E inc cur (List (h # expr) # rest)
           = after (printed (theorem_form E cur expr)) (doforms E inc cur rest)"
    using doforms_theorem [OF assms(3,4), of cur expr inc rest] by (simp add: t)
  from t p d show ?thesis by simp
qed


lemma parseterm_E0_atom:
  "defs cur = [] \<Longrightarrow>
   parseterm E0 cur (Symbol v) =
     Inr (if v \<in> set (variables cur) then Var v else if v = ascii ''_'' then Hole else Lit v)"
  by (simp add: parseterm_def macroexpand_unfold)

text \<open>
  With \<open>A\<close> postulated, the form \<open>(theorem - B B qed (A))\<close> states \<open>B\<close> and proves \<open>A\<close>.
\<close>

definition onlyA :: State where
  "onlyA = State0\<lparr>context' := [ascii ''A'' \<mapsto> rule [] (Lit (ascii ''A''))]\<rparr>"

definition wrongB :: "sexp list" where
  "wrongB = [Symbol [45], Symbol (ascii ''B''), Symbol (ascii ''B''),
             Symbol (ascii ''qed''), List [Symbol (ascii ''A'')]]"

lemma onlyA_simps [simp]:
  "defs onlyA = []" "variables onlyA = []" "bound onlyA = []"
  "context' onlyA = [ascii ''A'' \<mapsto> rule [] (Lit (ascii ''A''))]"
  by (simp_all add: onlyA_def State0_def)

lemma preamble_wrongB:
  "preamble E0 onlyA wrongB =
     Inr (ascii ''B'', Lit (ascii ''B''), [], [],
          [(ascii ''qed'', \<lparr>edge = ascii ''A'', arguments = [], substitutions = Map.empty\<rparr>)])"
  by (simp add: preamble_def wrongB_def isseparator_def containsonly_def parseterm_E0_atom
        proof'_def dict_def update_all_def ascii_def)

lemma verify_wrongB:
  "verify (update_all (context' onlyA) (zip [] (map (rule []) []))) (bound onlyA)
     (butlast [(ascii ''qed'', \<lparr>edge = ascii ''A'', arguments = [], substitutions = Map.empty\<rparr>)])
     (Lit (ascii ''B''))
     (snd (last [(ascii ''qed'', \<lparr>edge = ascii ''A'', arguments = [], substitutions = Map.empty\<rparr>)]))
   = ([], Inl (ConclusionMismatch (Lit (ascii ''B'')) (Lit (ascii ''A''))))"
  by (simp add: verify_def check_def update_all_def rule_def ascii_def)

theorem failed_theorem_rejected_witness:
  "theorem_form E0 onlyA wrongB =
     \<lparr>state = onlyA,
      printed = [NotChecked (ascii ''B''),
                 ErrorMessage (ConclusionMismatch (Lit (ascii ''B'')) (Lit (ascii ''A'')))],
      raised = None\<rparr>
   \<and> context' (state (theorem_form E0 onlyA wrongB)) (ascii ''B'') = None
   \<and> doforms E0 (dopath 0 E0 nofiles) onlyA [List (Symbol (ascii ''theorem'') # wrongB)]
       = \<lparr>state = onlyA,
          printed = [NotChecked (ascii ''B''),
                     ErrorMessage (ConclusionMismatch (Lit (ascii ''B'')) (Lit (ascii ''A'')))],
          raised = None\<rparr>"
  using failed_theorem_rejected [OF preamble_wrongB verify_wrongB,
      of "Symbol (ascii ''theorem'')" "ascii ''theorem''" "dopath 0 E0 nofiles" "[]"]
  by (simp add: after_def returns_def) (simp add: ascii_def)

section \<open>The context grows monotonically\<close>

lemma postulate_loop_grows:
  "context' cur \<subseteq>\<^sub>m context' (state (postulate_loop E cur acc expr))"
proof (induction E cur acc expr rule: postulate_loop.induct)
  case (1 E cur prems)
  then show ?case by simp
next
  case (2 E cur prems elem expr)
  show ?case
  proof (cases "isseparator elem")
    case False
    with "2.IH"(3) show ?thesis by (auto split: sum.splits)
  next
    case True
    show ?thesis
    proof (cases expr)
      case Nil
      with True show ?thesis by simp
    next
      case (Cons n expr1)
      show ?thesis
      proof (cases "symbol E n")
        case (Inl e)
        with True Cons show ?thesis by simp
      next
        case (Inr name)
        show ?thesis
        proof (cases expr1)
          case Nil
          with True Cons Inr show ?thesis by simp
        next
          case c: (Cons c expr2)
          show ?thesis
          proof (cases "parseterm E cur c")
            case (Inl e)
            with True Cons Inr c show ?thesis by simp
          next
            case concl: (Inr concl)
            show ?thesis
            proof (cases "context' cur name")
              case (Some old)
              with "2.IH"(2) [OF True Cons Inr c concl Some] True Cons Inr c concl
              show ?thesis by simp
            next
              case None
              let ?cur = "cur\<lparr>context' := (context' cur)(name \<mapsto> rule prems concl)\<rparr>"
              have "context' cur \<subseteq>\<^sub>m context' ?cur"
                using None by (auto simp: map_le_def)
              also have "context' ?cur \<subseteq>\<^sub>m context' (state (postulate_loop E ?cur [] expr2))"
                by (rule "2.IH"(1) [OF True Cons Inr c concl None])
              finally show ?thesis
                using True Cons Inr c concl None by simp
            qed
          qed
        qed
      qed
    qed
  qed
qed

lemma theorem_form_grows: "context' cur \<subseteq>\<^sub>m context' (state (theorem_form E cur expr))"
  by (auto simp: theorem_form_def Let_def map_le_def split: sum.splits option.splits prod.splits)

lemma small_forms_keep:
  "context' (state (infix_form E cur expr)) = context' cur"
  "context' (state (variables_form E cur expr)) = context' cur"
  "context' (state (bound_form E cur expr)) = context' cur"
  "context' (state (define_form E cur expr)) = context' cur"
  by (auto simp: infix_form_def variables_form_def bound_form_def define_form_def
      split: list.splits sexp.splits sum.splits option.splits)

lemma include_form_grows:
  assumes "\<And>cur path. context' cur \<subseteq>\<^sub>m context' (state (inc cur path))"
  shows "context' cur \<subseteq>\<^sub>m context' (state (include_form E inc cur exprs))"
proof (induction exprs arbitrary: cur)
  case Nil
  then show ?case by simp
next
  case (Cons expr exprs)
  show ?case
  proof (cases "symbol E expr")
    case (Inl e)
    then show ?thesis by simp
  next
    case (Inr path)
    show ?thesis
    proof (cases "raised (inc cur path)")
      case (Some e)
      with Inr assms [of cur path] show ?thesis by (simp add: Let_def)
    next
      case None
      from assms [of cur path] Cons.IH [of "state (inc cur path)"]
      have "context' cur \<subseteq>\<^sub>m context' (state (include_form E inc (state (inc cur path)) exprs))"
        by (rule map_le_trans)
      with Inr None show ?thesis by (simp add: Let_def)
    qed
  qed
qed

lemma evaluate_grows:
  assumes "\<And>cur path. context' cur \<subseteq>\<^sub>m context' (state (inc cur path))"
  shows "context' cur \<subseteq>\<^sub>m context' (state (evaluate E inc cur expr))"
proof -
  have h: "context' cur \<subseteq>\<^sub>m context' (state (handler cur tail))"
    if "map_of (forms E inc) form = Some handler" for form handler tail
  proof -
    from that have "(form, handler) \<in> set (forms E inc)" by (rule map_of_SomeD)
    then show ?thesis
      using postulate_loop_grows [of cur E "[]" tail] theorem_form_grows [of cur E tail]
        include_form_grows [of inc cur E tail, OF assms]
      by (auto simp: forms_def postulate_def small_forms_keep)
  qed
  show ?thesis
    by (auto simp: evaluate_def h split: sexp.splits list.splits sum.splits option.splits)
qed

lemma doforms_grows:
  assumes "\<And>cur path. context' cur \<subseteq>\<^sub>m context' (state (inc cur path))"
  shows "context' cur \<subseteq>\<^sub>m context' (state (doforms E inc cur exprs))"
proof (induction exprs arbitrary: cur)
  case Nil
  then show ?case by simp
next
  case (Cons expr exprs)
  show ?case
  proof (cases "raised (evaluate E inc cur expr)")
    case (Some e)
    with evaluate_grows [of inc cur E expr, OF assms] show ?thesis by (simp add: Let_def)
  next
    case None
    from evaluate_grows [of inc cur E expr, OF assms]
      Cons.IH [of "state (evaluate E inc cur expr)"]
    have "context' cur \<subseteq>\<^sub>m
          context' (state (doforms E inc (state (evaluate E inc cur expr)) exprs))"
      by (rule map_le_trans)
    with None show ?thesis by (simp add: Let_def)
  qed
qed

lemma dopath_grows: "context' cur \<subseteq>\<^sub>m context' (state (dopath n E fs cur path))"
proof (induction n arbitrary: cur path)
  case 0
  then show ?case by simp
next
  case (Suc n)
  have "context' (cur\<lparr>variables := []\<rparr>) \<subseteq>\<^sub>m
        context' (state (doforms E (dopath n E fs) (cur\<lparr>variables := []\<rparr>) exprs))" for exprs
    by (rule doforms_grows) (rule Suc.IH)
  then show ?case
    by (auto simp: dofile_def doexprs_def split: entry.splits)
qed

lemma main_loop_grows: "context' cur \<subseteq>\<^sub>m context' (state (main_loop E fs cur filenames))"
proof (induction filenames arbitrary: cur)
  case Nil
  then show ?case by simp
next
  case (Cons f filenames)
  let ?r = "dopath (limit E) E fs cur f"
  show ?case
  proof (cases "raised ?r")
    case (Some e)
    with dopath_grows [of cur "limit E" E fs f] show ?thesis by (simp add: Let_def)
  next
    case None
    from dopath_grows [of cur "limit E" E fs f] Cons.IH [of "state ?r"]
    have "context' cur \<subseteq>\<^sub>m context' (state (main_loop E fs (state ?r) filenames))"
      by (rule map_le_trans)
    with None show ?thesis by (simp add: Let_def)
  qed
qed

lemma map_le_Some: "m \<subseteq>\<^sub>m m' \<Longrightarrow> m k = Some v \<Longrightarrow> m' k = Some v"
  by (metis domI map_le_def)

text \<open>
  C3. The context grows monotonically within a run: a name that is bound in the context
  is bound to the same rule after every top-level form, after every file and at the end
  of the run, whether the form, the file or the run returns or raises. No key is
  removed, and no later postulate, theorem or other form replaces the rule of a key.
\<close>

theorem context_grows:
  assumes "context' cur k = Some r"
  shows "context' (state (evaluate E (dopath n E fs) cur expr)) k = Some r
       \<and> context' (state (dopath n E fs cur path)) k = Some r
       \<and> context' (state (main_loop E fs cur filenames)) k = Some r"
  using assms evaluate_grows [of "dopath n E fs" cur E expr, OF dopath_grows]
    dopath_grows [of cur n E fs path] main_loop_grows [of cur E fs filenames]
  by (blast intro: map_le_Some)


text \<open>
  With \<open>A\<close> postulated, the form \<open>(postulate - A B - C C)\<close> keeps the rule of \<open>A\<close> and adds
  the key \<open>C\<close>.
\<close>

definition againA :: sexp where
  "againA = List [Symbol (ascii ''postulate''),
                  Symbol [45], Symbol (ascii ''A''), Symbol (ascii ''B''),
                  Symbol [9472, 9472], Symbol (ascii ''C''), Symbol (ascii ''C'')]"

theorem context_grows_witness:
  "context' onlyA (ascii ''A'') = Some (rule [] (Lit (ascii ''A'')))
   \<and> context' (state (evaluate E0 (dopath 0 E0 nofiles) onlyA againA)) (ascii ''A'')
       = Some (rule [] (Lit (ascii ''A'')))
   \<and> context' (state (evaluate E0 (dopath 0 E0 nofiles) onlyA againA)) (ascii ''C'')
       = Some (rule [] (Lit (ascii ''C'')))
   \<and> printed (evaluate E0 (dopath 0 E0 nofiles) onlyA againA)
       = [AlreadyPostulated (ascii ''A''), Postulated (ascii ''C'')]"
proof -
  have a: "context' onlyA (ascii ''A'') = Some (rule [] (Lit (ascii ''A'')))"
    by simp
  have e: "evaluate E0 (dopath 0 E0 nofiles) onlyA againA =
        returns (onlyA\<lparr>context' := (context' onlyA)(ascii ''C'' \<mapsto> rule [] (Lit (ascii ''C'')))\<rparr>)
          [AlreadyPostulated (ascii ''A''), Postulated (ascii ''C'')]"
    by (simp add: againA_def evaluate_def forms_lookup postulate_def isseparator_def
          containsonly_def parseterm_E0_atom after_def returns_def)
       (simp add: ascii_def)
  from context_grows [OF a, of E0 0 nofiles againA] a e show ?thesis
    by simp
qed

section \<open>A name that is already in the context\<close>

lemma postulate_loop_premises:
  "list_all (\<lambda>x. \<not> isseparator x) pexprs \<Longrightarrow>
   maplist (parseterm E cur) pexprs = Inr ts \<Longrightarrow>
   postulate_loop E cur acc (pexprs @ rest) = postulate_loop E cur (acc @ ts) rest"
proof (induction pexprs arbitrary: acc ts)
  case Nil
  then show ?case by simp
next
  case (Cons x pexprs)
  from Cons.prems(2) obtain t ts' where
    t: "parseterm E cur x = Inr t" "maplist (parseterm E cur) pexprs = Inr ts'" "ts = t # ts'"
    by (auto split: sum.splits)
  from Cons.prems(1) have x: "\<not> isseparator x" "list_all (\<lambda>x. \<not> isseparator x) pexprs"
    by simp_all
  from Cons.IH [OF x(2) t(2), of "acc @ [t]"] x(1) t show ?case
    by simp
qed

lemma doforms_Cons_returns:
  "raised (evaluate E inc cur x) = None \<Longrightarrow>
   doforms E inc cur (x # xs)
     = after (printed (evaluate E inc cur x)) (doforms E inc (state (evaluate E inc cur x)) xs)"
  by (simp add: Let_def)

text \<open>
  C4. For every postulate or theorem whose name already exists in the context, the
  kernel reports the redefinition, keeps the state and with it the original entry, and
  goes on: with what follows the group in a \<open>postulate\<close> form, and with the forms after
  the form. Whatever these forms are, a later lookup of the name yields the original
  rule. (A group of a \<open>postulate\<close> form is its premises, a separator, the name and the
  conclusion; every group is reached with an empty list of premises.)
\<close>

theorem redefinition_keeps_original:
  assumes "context' cur name = Some old"
  shows "(list_all (\<lambda>x. \<not> isseparator x) pexprs \<and> maplist (parseterm E cur) pexprs = Inr ts
            \<and> isseparator sep \<and> symbol E n = Inr name \<and> parseterm E cur c = Inr concl
          \<longrightarrow> postulate E cur (pexprs @ sep # n # c # groups)
                = after [AlreadyPostulated name] (postulate E cur groups)
            \<and> (symbol E h = Inr (ascii ''postulate'')
                 \<longrightarrow> doforms E inc cur (List (h # pexprs @ [sep, n, c]) # rest)
                       = after [AlreadyPostulated name] (doforms E inc cur rest)))
       \<and> (preamble E cur expr = Inr (name, concl', names, prems, ps)
          \<longrightarrow> theorem_form E cur expr
                = \<lparr>state = cur, printed = [AlreadyDefined name], raised = None\<rparr>
            \<and> (symbol E h' = Inr form \<and> (form = ascii ''theorem'' \<or> form = ascii ''lemma'')
                 \<longrightarrow> doforms E inc cur (List (h' # expr) # rest)
                       = after [AlreadyDefined name] (doforms E inc cur rest)))
       \<and> context' (state (doforms E (dopath k E fs) cur later)) name = Some old"
proof (intro conjI impI)
  assume g: "list_all (\<lambda>x. \<not> isseparator x) pexprs \<and> maplist (parseterm E cur) pexprs = Inr ts
            \<and> isseparator sep \<and> symbol E n = Inr name \<and> parseterm E cur c = Inr concl"
  have p: "postulate E cur (pexprs @ sep # n # c # groups)
        = after [AlreadyPostulated name] (postulate E cur groups)" for groups
    using g assms by (simp add: postulate_def postulate_loop_premises [where acc = "[]"])
  show "postulate E cur (pexprs @ sep # n # c # groups)
        = after [AlreadyPostulated name] (postulate E cur groups)"
    by (rule p)
  assume h: "symbol E h = Inr (ascii ''postulate'')"
  have e: "evaluate E inc cur (List (h # pexprs @ [sep, n, c])) = returns cur [AlreadyPostulated name]"
    using h p [of "[]"] by (simp add: evaluate_def forms_lookup postulate_def after_def returns_def)
  show "doforms E inc cur (List (h # pexprs @ [sep, n, c]) # rest)
        = after [AlreadyPostulated name] (doforms E inc cur rest)"
    by (simp add: e Let_def)
next
  assume pre: "preamble E cur expr = Inr (name, concl', names, prems, ps)"
  show t: "theorem_form E cur expr = \<lparr>state = cur, printed = [AlreadyDefined name], raised = None\<rparr>"
    using assms by (simp add: theorem_form_unfold [OF pre] returns_def)
  assume "symbol E h' = Inr form \<and> (form = ascii ''theorem'' \<or> form = ascii ''lemma'')"
  then have "evaluate E inc cur (List (h' # expr)) = theorem_form E cur expr"
    by (auto simp: evaluate_def forms_lookup)
  then show "doforms E inc cur (List (h' # expr) # rest)
        = after [AlreadyDefined name] (doforms E inc cur rest)"
    by (simp add: t Let_def)
next
  show "context' (state (doforms E (dopath k E fs) cur later)) name = Some old"
    using doforms_grows [of "dopath k E fs" cur E later, OF dopath_grows] assms
    by (rule map_le_Some)
qed

text \<open>
  With \<open>A\<close> postulated: the form \<open>(postulate - A B)\<close>, and the form
  \<open>(theorem - A A qed (A))\<close>, whose proof would check.
\<close>

definition postulateAB :: "sexp list" where
  "postulateAB = [Symbol [45], Symbol (ascii ''A''), Symbol (ascii ''B'')]"

definition theoremA :: "sexp list" where
  "theoremA = [Symbol [45], Symbol (ascii ''A''), Symbol (ascii ''A''),
               Symbol (ascii ''qed''), List [Symbol (ascii ''A'')]]"

lemma preamble_theoremA:
  "preamble E0 onlyA theoremA =
     Inr (ascii ''A'', Lit (ascii ''A''), [], [],
          [(ascii ''qed'', \<lparr>edge = ascii ''A'', arguments = [], substitutions = Map.empty\<rparr>)])"
  by (simp add: preamble_def theoremA_def isseparator_def containsonly_def parseterm_E0_atom
        proof'_def dict_def update_all_def ascii_def)

theorem redefinition_keeps_original_witness:
  "context' onlyA (ascii ''A'') = Some (rule [] (Lit (ascii ''A'')))
   \<and> postulate E0 onlyA postulateAB
       = \<lparr>state = onlyA, printed = [AlreadyPostulated (ascii ''A'')], raised = None\<rparr>
   \<and> theorem_form E0 onlyA theoremA
       = \<lparr>state = onlyA, printed = [AlreadyDefined (ascii ''A'')], raised = None\<rparr>
   \<and> context' (state (doforms E0 (dopath 0 E0 nofiles) onlyA
         [List (Symbol (ascii ''postulate'') # postulateAB),
          List (Symbol (ascii ''theorem'') # theoremA)])) (ascii ''A'')
       = Some (rule [] (Lit (ascii ''A'')))"
proof -
  have a: "context' onlyA (ascii ''A'') = Some (rule [] (Lit (ascii ''A'')))"
    by simp
  have s: "isseparator (Symbol [45])"
    by (simp add: isseparator_def containsonly_def)
  have b: "parseterm E0 onlyA (Symbol (ascii ''B'')) = Inr (Lit (ascii ''B''))"
    by (simp add: parseterm_E0_atom) (simp add: ascii_def)
  from redefinition_keeps_original [OF a,
      of "[]" E0 "[]" "Symbol [45]" "Symbol (ascii ''A'')" "Symbol (ascii ''B'')"
         "Lit (ascii ''B'')" "[]" "Symbol (ascii ''postulate'')" "dopath 0 E0 nofiles" "[]"
         theoremA "Lit (ascii ''A'')" "[]" "[]"
         "[(ascii ''qed'', \<lparr>edge = ascii ''A'', arguments = [], substitutions = Map.empty\<rparr>)]"
         "Symbol (ascii ''theorem'')" "ascii ''theorem''" 0 nofiles
         "[List (Symbol (ascii ''postulate'') # postulateAB),
           List (Symbol (ascii ''theorem'') # theoremA)]"]
    a s b preamble_theoremA
  show ?thesis
    by (simp add: postulateAB_def postulate_def after_def returns_def)
qed

section \<open>Local lemmas of a theorem block\<close>

lemma locals_append:
  "locals \<Gamma> bnd (xs @ ys) =
     (case locals \<Gamma> bnd xs of
        (out, Inl e) \<Rightarrow> (out, Inl e)
      | (out, Inr \<Gamma>') \<Rightarrow> (case locals \<Gamma>' bnd ys of (out', res) \<Rightarrow> (out @ out', res)))"
  by (induction xs arbitrary: \<Gamma>) (auto split: prod.splits sum.splits)

lemma locals_step:
  assumes "k < length ls" and "snd (locals \<Gamma>0 bnd (take k ls)) = Inr \<Gamma>"
  shows "snd (locals \<Gamma>0 bnd (take (Suc k) ls)) =
     (case snd (infer \<Gamma> bnd (snd (ls ! k))) of
        Inl e \<Rightarrow> Inl e
      | Inr \<tau> \<Rightarrow> Inr (\<Gamma>(fst (ls ! k) \<mapsto> rule [] \<tau>)))"
proof -
  obtain x xs where l: "ls ! k = (x, xs)" by (cases "ls ! k")
  have "take (Suc k) ls = take k ls @ [(x, xs)]"
    using assms(1) l by (simp add: take_Suc_conv_app_nth)
  then show ?thesis
    using assms(2) l by (auto simp: locals_append split: prod.splits sum.splits)
qed

lemma locals_stops:
  assumes "snd (locals \<Gamma>0 bnd (take k ls)) = Inl e"
  shows "snd (locals \<Gamma>0 bnd ls) = Inl e"
proof -
  from assms have "snd (locals \<Gamma>0 bnd (take k ls @ drop k ls)) = Inl e"
    unfolding locals_append by (auto split: prod.splits sum.splits)
  then show ?thesis by simp
qed

lemma preamble_loop_lengths:
  "preamble_loop E cur names prems expected expr = Inr (name, concl, names', prems', ps) \<Longrightarrow>
   length names = length prems + expected \<Longrightarrow> length names' = length prems'"
proof (induction E cur names prems expected expr rule: preamble_loop.induct)
  case (1 E cur names prems expected)
  then show ?case by simp
next
  case (2 E cur names prems expected elem expr)
  then show ?case
    by (auto split: if_splits list.splits sum.splits)
qed

lemma preamble_lengths:
  "preamble E cur expr = Inr (name, concl, names, prems, ps) \<Longrightarrow> length names = length prems"
  by (auto simp: preamble_def dest: preamble_loop_lengths)

lemma update_all_other: "k \<notin> fst ` set kvs \<Longrightarrow> update_all m kvs k = m k"
  by (simp add: update_all_map_of map_add_def map_of_eq_None_iff [THEN iffD2])

lemma update_all_zip:
  assumes "length ks = length vs" and "distinct ks" and "i < length ks"
  shows "update_all m (zip ks vs) (ks ! i) = Some (vs ! i)"
proof -
  have "distinct (map fst (rev (zip ks vs)))"
    using assms(1,2) by (simp add: rev_map [symmetric])
  moreover have "(ks ! i, vs ! i) \<in> set (rev (zip ks vs))"
    using assms(1,3) by (auto simp: set_zip)
  ultimately have "map_of (rev (zip ks vs)) (ks ! i) = Some (vs ! i)"
    by (rule map_of_is_SomeI)
  then show ?thesis by (simp add: update_all_map_of)
qed

text \<open>
  C5. Within a theorem block whose name is new, the local context is a copy of the
  global context with the premises of the theorem stored under their names as rules
  without premises. The local lines are processed in the order they are written: each
  proof is inferred in the local context as the lines before it have left it, and its
  conclusion is stored there, under the name of the line, as a rule without premises; a
  line that fails ends the loop. The conclusion inferred from the final proof in the
  resulting local context is then compared with the stated conclusion, and the global
  context receives the theorem exactly when that comparison succeeds; otherwise it is
  what it was.
\<close>

theorem local_lemmas_in_order:
  assumes "preamble E cur expr = Inr (name, concl, names, prems, ps)"
    and "context' cur name = None"
  shows "let \<Gamma>0 = update_all (context' cur) (zip names (map (rule []) prems));
             ls = butlast ps
         in (\<forall>k. k \<notin> set names \<longrightarrow> \<Gamma>0 k = context' cur k)
          \<and> (distinct names \<longrightarrow> (\<forall>i<length names. \<Gamma>0 (names ! i) = Some (rule [] (prems ! i))))
          \<and> snd (locals \<Gamma>0 (bound cur) (take 0 ls)) = Inr \<Gamma>0
          \<and> (\<forall>k<length ls. \<forall>\<Gamma>. snd (locals \<Gamma>0 (bound cur) (take k ls)) = Inr \<Gamma> \<longrightarrow>
                snd (locals \<Gamma>0 (bound cur) (take (Suc k) ls)) =
                  (case snd (infer \<Gamma> (bound cur) (snd (ls ! k))) of
                     Inl e \<Rightarrow> Inl e
                   | Inr \<tau> \<Rightarrow> Inr (\<Gamma>(fst (ls ! k) \<mapsto> rule [] \<tau>))))
          \<and> (\<forall>k e. snd (locals \<Gamma>0 (bound cur) (take k ls)) = Inl e \<longrightarrow>
                snd (locals \<Gamma>0 (bound cur) ls) = Inl e)
          \<and> context' (state (theorem_form E cur expr)) =
               (case snd (locals \<Gamma>0 (bound cur) ls) of
                  Inl e \<Rightarrow> context' cur
                | Inr \<Gamma> \<Rightarrow>
                    if snd (infer \<Gamma> (bound cur) (snd (last ps))) = Inr concl
                    then (context' cur)(name \<mapsto> rule prems concl)
                    else context' cur)"
proof -
  define \<Gamma>0 where "\<Gamma>0 = update_all (context' cur) (zip names (map (rule []) prems))"
  define ls where "ls = butlast ps"
  have len: "length names = length prems"
    using assms(1) by (rule preamble_lengths)
  have a: "\<forall>k. k \<notin> set names \<longrightarrow> \<Gamma>0 k = context' cur k"
  proof (intro allI impI)
    fix k assume "k \<notin> set names"
    then have "k \<notin> fst ` set (zip names (map (rule []) prems))"
      by (auto dest: set_zip_leftD)
    then show "\<Gamma>0 k = context' cur k"
      unfolding \<Gamma>0_def by (rule update_all_other)
  qed
  have b: "distinct names \<longrightarrow> (\<forall>i<length names. \<Gamma>0 (names ! i) = Some (rule [] (prems ! i)))"
    using len update_all_zip [of names "map (rule []) prems" _ "context' cur"]
    unfolding \<Gamma>0_def by simp
  have c: "snd (locals \<Gamma>0 (bound cur) (take 0 ls)) = Inr \<Gamma>0"
    by simp
  have d: "\<forall>k<length ls. \<forall>\<Gamma>. snd (locals \<Gamma>0 (bound cur) (take k ls)) = Inr \<Gamma> \<longrightarrow>
                snd (locals \<Gamma>0 (bound cur) (take (Suc k) ls)) =
                  (case snd (infer \<Gamma> (bound cur) (snd (ls ! k))) of
                     Inl e \<Rightarrow> Inl e
                   | Inr \<tau> \<Rightarrow> Inr (\<Gamma>(fst (ls ! k) \<mapsto> rule [] \<tau>)))"
    using locals_step by blast
  have e: "\<forall>k e. snd (locals \<Gamma>0 (bound cur) (take k ls)) = Inl e \<longrightarrow>
                snd (locals \<Gamma>0 (bound cur) ls) = Inl e"
    using locals_stops by blast
  have f: "context' (state (theorem_form E cur expr)) =
               (case snd (locals \<Gamma>0 (bound cur) ls) of
                  Inl e \<Rightarrow> context' cur
                | Inr \<Gamma> \<Rightarrow>
                    if snd (infer \<Gamma> (bound cur) (snd (last ps))) = Inr concl
                    then (context' cur)(name \<mapsto> rule prems concl)
                    else context' cur)"
    using assms(2) unfolding \<Gamma>0_def ls_def
    by (auto simp: theorem_form_unfold [OF assms(1)] verify_def check_def
        split: prod.splits sum.splits)
  from a b c d e f show ?thesis
    unfolding \<Gamma>0_def ls_def Let_def by blast
qed


text \<open>
  With the rule \<open>id\<close> (from \<open>x\<close> infer \<open>x\<close>) postulated, the form
  \<open>(theorem - h P - T P l1 (id h) qed (id l1))\<close>: the line \<open>l1\<close> cites the premise \<open>h\<close>, and
  the final proof cites the line \<open>l1\<close>.
\<close>

definition onlyid :: State where
  "onlyid = State0\<lparr>context' := [ascii ''id'' \<mapsto> rule [Var (ascii ''x'')] (Var (ascii ''x''))]\<rparr>"

definition theoremT :: "sexp list" where
  "theoremT = [Symbol [9472], Symbol (ascii ''h''), Symbol (ascii ''P''),
               Symbol [9472], Symbol (ascii ''T''), Symbol (ascii ''P''),
               Symbol (ascii ''l1''), List [Symbol (ascii ''id''), Symbol (ascii ''h'')],
               Symbol (ascii ''qed''), List [Symbol (ascii ''id''), Symbol (ascii ''l1'')]]"

lemma onlyid_simps [simp]:
  "defs onlyid = []" "variables onlyid = []" "bound onlyid = []"
  "context' onlyid = [ascii ''id'' \<mapsto> rule [Var (ascii ''x'')] (Var (ascii ''x''))]"
  by (simp_all add: onlyid_def State0_def)

lemma preamble_theoremT:
  "preamble E0 onlyid theoremT =
     Inr (ascii ''T'', Lit (ascii ''P''), [ascii ''h''], [Lit (ascii ''P'')],
          [(ascii ''l1'', \<lparr>edge = ascii ''id'', arguments = [Lemma (ascii ''h'')],
                            substitutions = Map.empty\<rparr>),
           (ascii ''qed'', \<lparr>edge = ascii ''id'', arguments = [Lemma (ascii ''l1'')],
                             substitutions = Map.empty\<rparr>)])"
  by (simp add: preamble_def theoremT_def isseparator_def containsonly_def parseterm_E0_atom
        proof'_def dict_def update_all_def ascii_def)

theorem local_lemmas_in_order_witness:
  "context' onlyid (ascii ''T'') = None
   \<and> context' (state (theorem_form E0 onlyid theoremT))
       = (context' onlyid)(ascii ''T'' \<mapsto> rule [Lit (ascii ''P'')] (Lit (ascii ''P'')))
   \<and> printed (theorem_form E0 onlyid theoremT) = [Checked (ascii ''T'')]"
proof -
  have n: "context' onlyid (ascii ''T'') = None"
    by (simp add: ascii_def)
  have p: "printed (theorem_form E0 onlyid theoremT) = [Checked (ascii ''T'')]"
    by (simp add: theorem_form_unfold [OF preamble_theoremT] verify_def check_def
          update_all_def rule_def ascii_def)
  from local_lemmas_in_order [OF preamble_theoremT n] n p show ?thesis
    by (simp add: Let_def update_all_def rule_def ascii_def)
qed

section \<open>Variables are reset on entry to a file\<close>

lemma dopath_unfold:
  "dopath n E fs cur path =
     (if n = 0 then raises cur [] RecursionError
      else
        (case fs path of
           Missing \<Rightarrow> returns cur [PathDoesNotExist path]
         | Directory \<Rightarrow> returns cur [PathIsDirectory path]
         | File exprs \<Rightarrow> dofile E (dopath (n - 1) E fs) cur path exprs))"
  by (cases n) (auto split: entry.splits)

text \<open>
  C8. The list of variables is emptied on entry to every file that is processed, also a
  file entered through \<open>include\<close>: the forms of the file are evaluated from the state with
  no variables. The names declared earlier in the including file are discarded by an
  \<open>include\<close> of a file: the outcome of the \<open>include\<close>, and so the list of variables after it,
  is the same whatever the list was before, and holds only what came from processing
  the included files.
\<close>

theorem include_resets_variables:
  assumes "fs path = File exprs"
  shows "dopath (Suc n) E fs cur path
           = after [Checking path] (doforms E (dopath n E fs) (cur\<lparr>variables := []\<rparr>) exprs)
       \<and> dopath (Suc n) E fs (cur\<lparr>variables := vs\<rparr>) path = dopath (Suc n) E fs cur path
       \<and> (symbol E x = Inr path \<longrightarrow>
            include_form E (dopath (Suc n) E fs) (cur\<lparr>variables := vs\<rparr>) (x # xs)
              = include_form E (dopath (Suc n) E fs) cur (x # xs))"
  using assms by (simp add: dofile_def doexprs_def)

text \<open>
  The file \<open>B\<close> declares the variable \<open>y\<close>. An \<open>include\<close> of \<open>B\<close> from a state in which \<open>x\<close>
  is declared leaves the list \<open>[y]\<close>.
\<close>

definition fileB :: "str \<Rightarrow> entry" where
  "fileB path =
     (if path = ascii ''B'' then File [List [Symbol (ascii ''variables''), Symbol (ascii ''y'')]]
      else Missing)"

theorem include_resets_variables_witness:
  "fileB (ascii ''B'') = File [List [Symbol (ascii ''variables''), Symbol (ascii ''y'')]]
   \<and> variables (state (include_form E0 (dopath (Suc 0) E0 fileB)
         (State0\<lparr>variables := [ascii ''x'']\<rparr>) [Symbol (ascii ''B'')])) = [ascii ''y'']
   \<and> raised (include_form E0 (dopath (Suc 0) E0 fileB)
         (State0\<lparr>variables := [ascii ''x'']\<rparr>) [Symbol (ascii ''B'')]) = None"
proof -
  have f: "fileB (ascii ''B'') = File [List [Symbol (ascii ''variables''), Symbol (ascii ''y'')]]"
    by (simp add: fileB_def)
  have v: "doforms E0 (dopath 0 E0 fileB) (State0\<lparr>variables := []\<rparr>)
             [List [Symbol (ascii ''variables''), Symbol (ascii ''y'')]]
           = returns (State0\<lparr>variables := [ascii ''y'']\<rparr>) []"
    by (simp add: evaluate_def forms_lookup variables_form_def after_def returns_def)
  from include_resets_variables
      [of fileB "ascii ''B''" "[List [Symbol (ascii ''variables''), Symbol (ascii ''y'')]]"
          0 E0 State0 "[ascii ''x'']" "Symbol (ascii ''B'')" "[]"]
    f v
  show ?thesis
    by (simp add: after_def returns_def)
qed

section \<open>Errors that are no verification errors\<close>

lemma postulate_only_premises:
  assumes "list_all (\<lambda>x. \<not> isseparator x) pexprs"
    and "maplist (parseterm E cur) pexprs = Inr ts" and "pexprs \<noteq> []"
  shows "postulate E cur pexprs = raises cur [] (SyntaxError (ascii ''incomplete definition''))"
proof -
  from assms(2,3) have "ts \<noteq> []"
    by (cases pexprs) (auto split: sum.splits)
  with postulate_loop_premises [OF assms(1,2), of "[]" "[]"] show ?thesis
    by (simp add: postulate_def)
qed

text \<open>
  Two files: \<open>bad\<close> holds the form \<open>(postulate A)\<close>, a premise with no separator and no
  name; \<open>good\<close> holds the form \<open>(postulate - B B)\<close>.
\<close>

definition badgood :: "str \<Rightarrow> entry" where
  "badgood path =
     (if path = ascii ''bad'' then File [List [Symbol (ascii ''postulate''), Symbol (ascii ''A'')]]
      else if path = ascii ''good'' then
        File [List [Symbol (ascii ''postulate''), Symbol [45], Symbol (ascii ''B''),
                    Symbol (ascii ''B'')]]
      else Missing)"

lemma parseterm_E0_State0:
  "parseterm E0 (State0\<lparr>variables := []\<rparr>) (Symbol v) = Inr (if v = ascii ''_'' then Hole else Lit v)"
  by (simp add: parseterm_E0_atom State0_def)

text \<open>
  C6, as stated, fails: the syntax error in \<open>bad\<close> ends the run. The file \<open>good\<close>, listed
  after it, is not processed (nothing is printed for it and \<open>B\<close> is not postulated),
  though on its own it postulates \<open>B\<close>.
\<close>

theorem later_files_not_processed:
  "raised (main E0 badgood [ascii ''bad'', ascii ''good''])
     = Some (SyntaxError (ascii ''incomplete definition''))
   \<and> printed (main E0 badgood [ascii ''bad'', ascii ''good'']) = [Checking (ascii ''bad'')]
   \<and> context' (state (main E0 badgood [ascii ''bad'', ascii ''good''])) (ascii ''B'') = None
   \<and> context' (state (main E0 badgood [ascii ''good''])) (ascii ''B'')
       = Some (rule [] (Lit (ascii ''B'')))"
proof -
  have bad: "dopath 1000 E0 badgood State0 (ascii ''bad'')
      = \<lparr>state = State0\<lparr>variables := []\<rparr>, printed = [Checking (ascii ''bad'')],
         raised = Some (SyntaxError (ascii ''incomplete definition''))\<rparr>"
    by (simp add: dopath_unfold [of 1000] badgood_def dofile_def doexprs_def evaluate_def
          forms_lookup postulate_def isseparator_def containsonly_def parseterm_E0_State0
          after_def raises_def)
       (simp add: ascii_def)
  have good: "dopath 1000 E0 badgood State0 (ascii ''good'')
      = \<lparr>state = State0\<lparr>variables := [],
            context' := [ascii ''B'' \<mapsto> rule [] (Lit (ascii ''B''))]\<rparr>,
         printed = [Checking (ascii ''good''), Postulated (ascii ''B'')],
         raised = None\<rparr>"
    by (simp add: dopath_unfold [of 1000] badgood_def dofile_def doexprs_def evaluate_def
          forms_lookup postulate_def isseparator_def containsonly_def parseterm_E0_State0
          after_def returns_def)
       (simp add: ascii_def State0_def)
  show ?thesis
    by (simp add: main_def bad good after_def returns_def) (simp add: State0_def ascii_def)
qed

text \<open>
  C6, amended. An error that is no verification error is caught nowhere in the driver: it
  ends the form, the rest of the current file, every \<open>include\<close> that led to the file, and
  the run, so that the files listed after it on the command line are not processed. Two
  such errors: a \<open>postulate\<close> form that ends with premises and no separator, and a form
  whose head is no key of \<open>forms\<close>.
\<close>

theorem errors_end_the_run:
  "(raised (evaluate E inc cur expr) = Some e \<longrightarrow>
      doforms E inc cur (expr # exprs) = evaluate E inc cur expr)
   \<and> (fs path = File forms' \<and>
        raised (doforms E (dopath n E fs) (cur\<lparr>variables := []\<rparr>) forms') = Some e \<longrightarrow>
      raised (dopath (Suc n) E fs cur path) = Some e)
   \<and> (symbol E x = Inr path \<and> raised (inc cur path) = Some e \<longrightarrow>
      include_form E inc cur (x # xs) = inc cur path)
   \<and> (raised (dopath (limit E) E fs cur filename) = Some e \<longrightarrow>
      main_loop E fs cur (filename # filenames) = dopath (limit E) E fs cur filename)
   \<and> (symbol E h = Inr (ascii ''postulate'') \<and> pexprs \<noteq> [] \<and>
        list_all (\<lambda>x. \<not> isseparator x) pexprs \<and> maplist (parseterm E cur) pexprs = Inr ts \<longrightarrow>
      evaluate E inc cur (List (h # pexprs))
        = raises cur [] (SyntaxError (ascii ''incomplete definition'')))
   \<and> (symbol E h = Inr form \<and> map_of (forms E inc) form = None \<longrightarrow>
      evaluate E inc cur (List (h # tail))
        = raises cur [] (AssertionError (ascii ''unknown form '' @ 8220 # form @ [8221])))"
  by (auto simp: Let_def dofile_def doexprs_def evaluate_def forms_lookup
        postulate_only_premises)

theorem errors_end_the_run_witness:
  "raised (dopath (limit E0) E0 badgood State0 (ascii ''bad''))
     = Some (SyntaxError (ascii ''incomplete definition''))
   \<and> main_loop E0 badgood State0 [ascii ''bad'', ascii ''good'']
     = dopath (limit E0) E0 badgood State0 (ascii ''bad'')
   \<and> evaluate E0 (dopath 0 E0 badgood) (State0\<lparr>variables := []\<rparr>)
         (List [Symbol (ascii ''postulate''), Symbol (ascii ''A'')])
     = raises (State0\<lparr>variables := []\<rparr>) [] (SyntaxError (ascii ''incomplete definition''))"
proof -
  have bad: "raised (dopath (limit E0) E0 badgood State0 (ascii ''bad''))
      = Some (SyntaxError (ascii ''incomplete definition''))"
    by (simp add: dopath_unfold [of 1000] badgood_def dofile_def doexprs_def evaluate_def
          forms_lookup postulate_def isseparator_def containsonly_def parseterm_E0_State0
          raises_def)
       (simp add: ascii_def)
  have sep: "list_all (\<lambda>x. \<not> isseparator x) [Symbol (ascii ''A'')]"
    by (simp add: isseparator_def containsonly_def ascii_def)
  have ts: "maplist (parseterm E0 (State0\<lparr>variables := []\<rparr>)) [Symbol (ascii ''A'')]
      = Inr [Lit (ascii ''A'')]"
    by (simp add: parseterm_E0_State0) (simp add: ascii_def)
  from errors_end_the_run
    [where E = E0 and inc = "dopath 0 E0 badgood" and cur = "State0\<lparr>variables := []\<rparr>"
       and h = "Symbol (ascii ''postulate'')" and pexprs = "[Symbol (ascii ''A'')]"
       and ts = "[Lit (ascii ''A'')]"]
    sep ts
  have ev: "evaluate E0 (dopath 0 E0 badgood) (State0\<lparr>variables := []\<rparr>)
         (List [Symbol (ascii ''postulate''), Symbol (ascii ''A'')])
     = raises (State0\<lparr>variables := []\<rparr>) [] (SyntaxError (ascii ''incomplete definition''))"
    by simp
  from errors_end_the_run
    [where E = E0 and fs = badgood and cur = State0 and filename = "ascii ''bad''"
       and filenames = "[ascii ''good'']"
       and e = "SyntaxError (ascii ''incomplete definition'')"]
    bad
  have "main_loop E0 badgood State0 [ascii ''bad'', ascii ''good'']
     = dopath (limit E0) E0 badgood State0 (ascii ''bad'')"
    by blast
  with bad ev show ?thesis by simp
qed

end
